theory Spec2Isabelle
  imports Complex_Main "HOL-Library.Word"
begin

section \<open>JavaScript values as the quiz pipeline sees them\<close>

text \<open>
  A JavaScript string is a sequence of 16-bit code units. Source literals such as
  \<^verbatim>\<open>'multiple_choice'\<close> are ASCII and are written \<open>lit ''multiple_choice''\<close>.
\<close>

type_synonym jsstring = "16 word list"

definition lit :: "string \<Rightarrow> jsstring" where
  "lit s = map of_char s"

text \<open>
  \<^verbatim>\<open>String.prototype.trim\<close> strips the code units that ECMAScript calls WhiteSpace or
  LineTerminator from both ends: TAB, LF, VT, FF, CR, SP, NBSP, U+1680, U+2000..U+200A,
  U+2028, U+2029, U+202F, U+205F, U+3000 and U+FEFF.
\<close>

definition is_js_whitespace :: "16 word \<Rightarrow> bool" where
  "is_js_whitespace c \<longleftrightarrow>
     c = 0x9 \<or> c = 0xA \<or> c = 0xB \<or> c = 0xC \<or> c = 0xD \<or> c = 0x20 \<or> c = 0xA0 \<or>
     c = 0x1680 \<or> (0x2000 \<le> c \<and> c \<le> 0x200A) \<or> c = 0x2028 \<or> c = 0x2029 \<or>
     c = 0x202F \<or> c = 0x205F \<or> c = 0x3000 \<or> c = 0xFEFF"

definition trim :: "jsstring \<Rightarrow> jsstring" where
  "trim s = rev (dropWhile is_js_whitespace (rev (dropWhile is_js_whitespace s)))"

text \<open>
  The value that \<^verbatim>\<open>JSON.parse\<close> returns, together with \<^verbatim>\<open>undefined\<close>, which reading
  an absent property yields. A number is kept as the real it denotes (the code below
  only asks whether it is falsy). An object is the list of its own properties in
  insertion order; a property is looked up by its first entry.
\<close>

datatype jsval =
    JUndefined
  | JNull
  | JBool bool
  | JNum real
  | JStr jsstring
  | JArr "jsval list"
  | JObj "(jsstring \<times> jsval) list"

datatype error =
    TypeError
  | MissingQuestions
  | InvalidOptions
  | AnswerNotInOptions
  | UnknownQuestionType jsval
  | TranslationFailed

text \<open>
  \<^verbatim>\<open>v.k\<close> for the data property names this program reads (\<^verbatim>\<open>questions\<close>,
  \<^verbatim>\<open>questionType\<close>, \<^verbatim>\<open>options\<close>, \<^verbatim>\<open>correctAnswer\<close>, \<^verbatim>\<open>translations\<close>), none of which
  is built into arrays, strings, numbers or booleans: reading from \<^verbatim>\<open>null\<close> or
  \<^verbatim>\<open>undefined\<close> throws a TypeError, reading from any other non-object gives
  \<^verbatim>\<open>undefined\<close>.
\<close>

fun get_prop :: "jsval \<Rightarrow> jsstring \<Rightarrow> error + jsval" where
  "get_prop JUndefined k = Inl TypeError"
| "get_prop JNull k = Inl TypeError"
| "get_prop (JObj kvs) k = (case map_of kvs k of None \<Rightarrow> Inr JUndefined | Some v \<Rightarrow> Inr v)"
| "get_prop v k = Inr JUndefined"

text \<open>\<^verbatim>\<open>o.k = v\<close> on an object: an existing property keeps its place, a new one goes last.\<close>

fun assign :: "(jsstring \<times> jsval) list \<Rightarrow> jsstring \<Rightarrow> jsval \<Rightarrow> (jsstring \<times> jsval) list" where
  "assign [] k v = [(k, v)]"
| "assign ((k', v') # kvs) k v = (if k' = k then (k, v) # kvs else (k', v') # assign kvs k v)"

fun set_prop :: "jsval \<Rightarrow> jsstring \<Rightarrow> jsval \<Rightarrow> jsval" where
  "set_prop (JObj kvs) k v = JObj (assign kvs k v)"
| "set_prop w k v = w"

text \<open>\<^verbatim>\<open>!v\<close>: the falsy values are undefined, null, false, 0 and the empty string.\<close>

fun falsy :: "jsval \<Rightarrow> bool" where
  "falsy JUndefined = True"
| "falsy JNull = True"
| "falsy (JBool b) = (\<not> b)"
| "falsy (JNum x) = (x = 0)"
| "falsy (JStr s) = (s = [])"
| "falsy (JArr xs) = False"
| "falsy (JObj kvs) = False"

fun isArray :: "jsval \<Rightarrow> bool" where
  "isArray (JArr xs) = True"
| "isArray v = False"

fun elems :: "jsval \<Rightarrow> jsval list" where
  "elems (JArr xs) = xs"
| "elems v = []"

text \<open>
  The callback of \<^verbatim>\<open>q.options.some(...)\<close>:
  \<^verbatim>\<open>typeof opt !== 'string' || opt.trim() === ''\<close>.
\<close>

fun bad_option :: "jsval \<Rightarrow> bool" where
  "bad_option (JStr s) = (trim s = [])"
| "bad_option v = True"

text \<open>
  \<^verbatim>\<open>xs.includes(x)\<close> compares with SameValueZero. The values of a parsed JSON text are
  a tree, so an array or object read from one place is never the same reference as one
  read from another place.
\<close>

fun same_value_zero :: "jsval \<Rightarrow> jsval \<Rightarrow> bool" where
  "same_value_zero JUndefined JUndefined = True"
| "same_value_zero JNull JNull = True"
| "same_value_zero (JBool a) (JBool b) = (a = b)"
| "same_value_zero (JNum a) (JNum b) = (a = b)"
| "same_value_zero (JStr a) (JStr b) = (a = b)"
| "same_value_zero v w = False"

definition array_includes :: "jsval list \<Rightarrow> jsval \<Rightarrow> bool" where
  "array_includes xs x = list_ex (\<lambda>y. same_value_zero y x) xs"

section \<open>The validation block of generateQuiz\<close>

text \<open>
  The body of the loop \<^verbatim>\<open>for (const q of quizData.questions)\<close> in
  \<^verbatim>\<open>services/geminiService.ts\<close>. Each \<^verbatim>\<open>throw\<close> is an \<open>Inl\<close>; the question is
  returned as the loop leaves it (\<^verbatim>\<open>q.options = []\<close> is the only write).
\<close>

definition check_question :: "jsval \<Rightarrow> error + jsval" where
  "check_question q =
     (case get_prop q (lit ''questionType'') of
        Inl e \<Rightarrow> Inl e
      | Inr t \<Rightarrow>
          if t = JStr (lit ''multiple_choice'') then
            (case get_prop q (lit ''options'') of
               Inl e \<Rightarrow> Inl e
             | Inr opts \<Rightarrow>
                 if falsy opts \<or> \<not> isArray opts \<or> length (elems opts) \<noteq> 4
                    \<or> list_ex bad_option (elems opts)
                 then Inl InvalidOptions
                 else
                   (case get_prop q (lit ''correctAnswer'') of
                      Inl e \<Rightarrow> Inl e
                    | Inr ans \<Rightarrow>
                        if \<not> array_includes (elems opts) ans then Inl AnswerNotInOptions
                        else Inr q))
          else if t = JStr (lit ''fill_in_the_blank'') then
            Inr (set_prop q (lit ''options'') (JArr []))
          else Inl (UnknownQuestionType t))"

fun check_questions :: "jsval list \<Rightarrow> error + jsval list" where
  "check_questions [] = Inr []"
| "check_questions (q # qs) =
     (case check_question q of
        Inl e \<Rightarrow> Inl e
      | Inr q' \<Rightarrow> (case check_questions qs of Inl e \<Rightarrow> Inl e | Inr qs' \<Rightarrow> Inr (q' # qs')))"

text \<open>
  Lines 167 to 193 of \<^verbatim>\<open>generateQuiz\<close>, from the parsed response \<^verbatim>\<open>quizData\<close> to
  \<^verbatim>\<open>return quizData as Quiz\<close>. The surrounding \<^verbatim>\<open>catch\<close> rethrows every error as an
  \<^verbatim>\<open>Error\<close> with a user-facing message, so an \<open>Inl\<close> here is a failed generation.
\<close>

definition validate :: "jsval \<Rightarrow> error + jsval" where
  "validate quizData =
     (case get_prop quizData (lit ''questions'') of
        Inl e \<Rightarrow> Inl e
      | Inr qs \<Rightarrow>
          if falsy qs \<or> \<not> isArray qs then Inl MissingQuestions
          else
            (case check_questions (elems qs) of
               Inl e \<Rightarrow> Inl e
             | Inr qs' \<Rightarrow> Inr (set_prop quizData (lit ''questions'') (JArr qs'))))"

text \<open>The questions of an accepted quiz, as \<^verbatim>\<open>quiz.questions\<close> reads them.\<close>

definition questions_of :: "jsval \<Rightarrow> jsval list" where
  "questions_of quiz = (case get_prop quiz (lit ''questions'') of Inl e \<Rightarrow> [] | Inr qs \<Rightarrow> elems qs)"


section \<open>Numbers\<close>

text \<open>
  The numbers of the quiz session are IEEE 754 doubles: \<^verbatim>\<open>settings.duration\<close> is a
  result of \<^verbatim>\<open>parseInt\<close>, and \<^verbatim>\<open>timeLeft\<close> is \<^verbatim>\<open>duration * 60\<close> less a number of
  ones. Such a number is \<^verbatim>\<open>NaN\<close>, an infinity, or a double whose value is an integer:
  \<open>Finite x\<close> is the double of value \<open>x\<close>. The two zeros are one value here; no
  operation below tells them apart.
\<close>

datatype number = NaN | Finite int | PosInfinity | NegInfinity

text \<open>The number of binary digits of a natural number.\<close>

fun bits :: "nat \<Rightarrow> nat" where
  "bits n = (if n = 0 then 0 else Suc (bits (n div 2)))"

declare bits.simps [simp del]

text \<open>
  Rounding a natural number to 53 significant binary digits, to the nearest such
  number and to the one with an even last digit when two are equally near.
\<close>

definition round_nat :: "nat \<Rightarrow> nat" where
  "round_nat a =
     (let q = 2 ^ (bits a - 53); m = a div q; r = a mod q
      in (if 2 * r > q \<or> (2 * r = q \<and> odd m) then m + 1 else m) * q)"

text \<open>
  The double that an arithmetic operation returns when its exact result is the
  integer \<open>x\<close>: the rounded value, or an infinity from \<open>2 ^ 1024\<close> on.
\<close>

definition round_double :: "int \<Rightarrow> number" where
  "round_double x =
     (let v = round_nat (nat \<bar>x\<bar>)
      in if 2 ^ 1024 \<le> v then (if x < 0 then NegInfinity else PosInfinity)
         else Finite (if x < 0 then - int v else int v))"


text \<open>\<^verbatim>\<open>a * 60\<close>, \<^verbatim>\<open>a - b\<close>, \<^verbatim>\<open>a <= 0\<close> and \<^verbatim>\<open>a < 0\<close>.\<close>

fun times60 :: "number \<Rightarrow> number" where
  "times60 (Finite x) = round_double (x * 60)"
| "times60 a = a"

fun js_minus :: "number \<Rightarrow> number \<Rightarrow> number" where
  "js_minus NaN b = NaN"
| "js_minus a NaN = NaN"
| "js_minus (Finite x) (Finite y) = round_double (x - y)"
| "js_minus (Finite x) PosInfinity = NegInfinity"
| "js_minus (Finite x) NegInfinity = PosInfinity"
| "js_minus PosInfinity PosInfinity = NaN"
| "js_minus PosInfinity b = PosInfinity"
| "js_minus NegInfinity NegInfinity = NaN"
| "js_minus NegInfinity b = NegInfinity"

fun le_zero :: "number \<Rightarrow> bool" where
  "le_zero (Finite x) = (x \<le> 0)"
| "le_zero NegInfinity = True"
| "le_zero a = False"


section \<open>The data model of types.ts\<close>

datatype question_type = multiple_choice | fill_in_the_blank

text \<open>
  A question as the session receives it. \<^verbatim>\<open>generateQuiz\<close> returns the parsed response
  through the unchecked cast \<^verbatim>\<open>quizData as Quiz\<close>, so only what the validation block
  has checked has its declared type: \<^verbatim>\<open>questionType\<close> is one of the two tags, and
  \<^verbatim>\<open>options\<close> is an array of strings. \<^verbatim>\<open>questionText\<close>, \<^verbatim>\<open>correctAnswer\<close>,
  \<^verbatim>\<open>explanation\<close> and the \<^verbatim>\<open>topic\<close> of the quiz are the values received.
\<close>

record Question =
  questionText :: jsval
  questionType :: question_type
  options :: "jsstring list"
  correctAnswer :: jsval
  explanation :: jsval

record Quiz =
  topic :: jsval
  questions :: "Question list"





datatype QuestionType = MultipleChoice | FillInTheBlank | Mixed

datatype Difficulty = Easy | Medium | Hard

text \<open>
  \<^verbatim>\<open>numQuestions\<close> and \<^verbatim>\<open>duration\<close> are what \<^verbatim>\<open>parseInt\<close> made of the fields of the
  settings form (\<^verbatim>\<open>NaN\<close> for an emptied field), or the initial 10.
\<close>

record QuizSettings =
  settings_topic :: jsstring
  documentContent :: "jsstring option"
  numQuestions :: number
  settings_questionType :: QuestionType
  difficulty :: Difficulty
  duration :: number
  settings_language :: jsstring

text \<open>
  A JavaScript array may have holes, which \<^verbatim>\<open>reduce\<close> skips without calling its
  callback. \<^verbatim>\<open>userAnswers\<close> is an array of \<^verbatim>\<open>string | null\<close>; \<open>None\<close> is \<^verbatim>\<open>null\<close>.
\<close>

datatype 'a slot = Hole | Elem 'a

type_synonym answers = "jsstring option slot list"

text \<open>
  The score and the index of the current question are counts that stay below the
  greatest length of an array, \<open>2 ^ 32\<close>, where the arithmetic of doubles is exact;
  they are integers here.
\<close>

record QuizResult =
  result_id :: jsstring
  result_quiz :: Quiz
  result_settings :: QuizSettings
  result_userAnswers :: answers
  score :: int
  timeTaken :: number
  folderId :: jsstring
  tags :: "jsstring list"

section \<open>The quiz session of QuizScreen\<close>

text \<open>
  What \<^verbatim>\<open>setTranslatedContent\<close> stores: the translated question and, for a
  multiple-choice question, the translated options. The provider's strings are not
  checked, so they are kept as the values received.
\<close>

datatype translated_content = TranslatedContent jsval "jsval list option"

text \<open>
  The \<^verbatim>\<open>useState\<close> cells of the component that the quiz session consists of (the
  progress counter of the PDF download is left out).
\<close>

record session =
  currentQuestionIndex :: int
  userAnswers :: answers
  timeLeft :: number
  isPaused :: bool
  isTranslating :: bool
  showTranslateModal :: bool
  translatedContent :: "translated_content option"

definition init :: "Quiz \<Rightarrow> QuizSettings \<Rightarrow> session" where
  "init quiz settings =
     \<lparr> currentQuestionIndex = 0,
       userAnswers = replicate (length (questions quiz)) (Elem None),
       timeLeft = times60 (duration settings),
       isPaused = False,
       isTranslating = False,
       showTranslateModal = False,
       translatedContent = None \<rparr>"

text \<open>
  \<^verbatim>\<open>answer === correctAnswer\<close> for an answer that is a string or \<^verbatim>\<open>null\<close>: equal
  strings are equal, \<^verbatim>\<open>null\<close> is equal to \<^verbatim>\<open>null\<close>, and nothing else is.
\<close>

fun strict_equals :: "jsstring option \<Rightarrow> jsval \<Rightarrow> bool" where
  "strict_equals None v = (v = JNull)"
| "strict_equals (Some s) v = (v = JStr s)"

text \<open>
  The reducer of \<^verbatim>\<open>handleSubmit\<close>, from position \<open>index\<close> on:
  \<^verbatim>\<open>answer === quiz.questions[index].correctAnswer ? acc + 1 : acc\<close>. Reading
  \<^verbatim>\<open>correctAnswer\<close> of a question that does not exist throws a TypeError.
\<close>

fun score_reduce :: "Question list \<Rightarrow> answers \<Rightarrow> nat \<Rightarrow> int \<Rightarrow> error + int" where
  "score_reduce qs [] index acc = Inr acc"
| "score_reduce qs (Hole # rest) index acc = score_reduce qs rest (index + 1) acc"
| "score_reduce qs (Elem answer # rest) index acc =
     (if index < length qs
      then score_reduce qs rest (index + 1)
             (if strict_equals answer (correctAnswer (qs ! index)) then acc + 1 else acc)
      else Inl TypeError)"

text \<open>
  \<^verbatim>\<open>handleSubmit\<close>: the result handed to \<^verbatim>\<open>onComplete\<close>. There is no state that records
  an earlier submission, and none of the session's cells is written. (The function also
  clears the running interval, which the timer effect starts again when it next runs;
  below, seconds may go on passing after a submission.)
\<close>

definition handleSubmit :: "Quiz \<Rightarrow> QuizSettings \<Rightarrow> session \<Rightarrow> error + QuizResult" where
  "handleSubmit quiz settings s =
     (case score_reduce (questions quiz) (userAnswers s) 0 0 of
        Inl e \<Rightarrow> Inl e
      | Inr n \<Rightarrow>
          Inr \<lparr> result_id = [],
                result_quiz = quiz,
                result_settings = settings,
                result_userAnswers = userAnswers s,
                score = n,
                timeTaken = js_minus (times60 (duration settings)) (timeLeft s),
                folderId = lit ''uncategorized'',
                tags = [] \<rparr>)"

text \<open>\<^verbatim>\<open>Date.now().toString()\<close> for the clock reading \<open>n\<close>: its decimal digits.\<close>

fun toString :: "nat \<Rightarrow> jsstring" where
  "toString n =
     (if n < 10 then [of_nat (48 + n)]
      else toString (n div 10) @ [of_nat (48 + n mod 10)])"

declare toString.simps [simp del]

text \<open>
  \<^verbatim>\<open>handleQuizComplete\<close> of App.tsx with the updater of \<^verbatim>\<open>setQuizResults\<close> applied to
  the stored list: \<^verbatim>\<open>[newResult, ...prev]\<close>. The change of screen that it asks for
  afterwards is not part of the stored list.
\<close>

definition handleQuizComplete :: "nat \<Rightarrow> QuizResult \<Rightarrow> QuizResult list \<Rightarrow> QuizResult list" where
  "handleQuizComplete now result quizResults =
     result\<lparr> result_id := toString now, folderId := lit ''uncategorized'', tags := [] \<rparr>
       # quizResults"

text \<open>
  One call of \<^verbatim>\<open>handleSubmit\<close> in the component as App mounts it
  (\<^verbatim>\<open>onComplete={handleQuizComplete}\<close>), at clock reading \<open>now\<close>: the stored results
  afterwards.
\<close>

definition submit ::
  "Quiz \<Rightarrow> QuizSettings \<Rightarrow> nat \<Rightarrow> session \<Rightarrow> QuizResult list \<Rightarrow> error + QuizResult list" where
  "submit quiz settings now s quizResults =
     (case handleSubmit quiz settings s of
        Inl e \<Rightarrow> Inl e
      | Inr result \<Rightarrow> Inr (handleQuizComplete now result quizResults))"

text \<open>
  The timer effect, run after a render whose \<^verbatim>\<open>isPaused\<close>, \<^verbatim>\<open>timeLeft\<close> or
  \<^verbatim>\<open>handleSubmit\<close> changed: it returns at once when paused, calls \<^verbatim>\<open>handleSubmit\<close> when
  \<^verbatim>\<open>timeLeft <= 0\<close>, and otherwise starts the one-second interval.
\<close>

datatype timer = NoTimer | Expired | Running

definition timer_effect :: "session \<Rightarrow> timer" where
  "timer_effect s =
     (if isPaused s then NoTimer else if le_zero (timeLeft s) then Expired else Running)"


text \<open>
  One second of wall-clock time: the interval's callback \<^verbatim>\<open>setTimeLeft(prev => prev - 1)\<close>
  fires if the effect started the interval, and nothing happens otherwise.
\<close>

definition tick :: "session \<Rightarrow> session" where
  "tick s =
     (if timer_effect s = Running then s\<lparr> timeLeft := js_minus (timeLeft s) (Finite 1) \<rparr>
      else s)"

definition setIsPaused :: "bool \<Rightarrow> session \<Rightarrow> session" where
  "setIsPaused b s = s\<lparr> isPaused := b \<rparr>"

text \<open>
  \<^verbatim>\<open>xs[i] = v\<close> for an integer \<open>i\<close>: inside the array the element is replaced; beyond
  its end the array grows, with holes up to \<open>i\<close>; a negative \<open>i\<close> names an ordinary
  property and leaves the elements as they are.
\<close>

definition array_assign :: "'a slot list \<Rightarrow> int \<Rightarrow> 'a \<Rightarrow> 'a slot list" where
  "array_assign xs i v =
     (if i < 0 then xs
      else if nat i < length xs then xs[nat i := Elem v]
      else xs @ replicate (nat i - length xs) Hole @ [Elem v])"

definition handleAnswerChange :: "jsstring \<Rightarrow> session \<Rightarrow> session" where
  "handleAnswerChange answer s =
     s\<lparr> userAnswers := array_assign (userAnswers s) (currentQuestionIndex s) (Some answer) \<rparr>"

definition changeQuestion :: "Quiz \<Rightarrow> int \<Rightarrow> session \<Rightarrow> session" where
  "changeQuestion quiz newIndex s =
     (if newIndex \<ge> 0 \<and> newIndex < int (length (questions quiz))
      then s\<lparr> currentQuestionIndex := newIndex, translatedContent := None \<rparr>
      else s)"

definition goToNext :: "Quiz \<Rightarrow> session \<Rightarrow> session" where
  "goToNext quiz s = changeQuestion quiz (currentQuestionIndex s + 1) s"

definition goToPrev :: "Quiz \<Rightarrow> session \<Rightarrow> session" where
  "goToPrev quiz s = changeQuestion quiz (currentQuestionIndex s - 1) s"

definition skipQuestion :: "Quiz \<Rightarrow> session \<Rightarrow> session" where
  "skipQuestion quiz s = goToNext quiz s"

section \<open>Translation\<close>

text \<open>
  The provider is outside the program. What \<^verbatim>\<open>translateText\<close> asks of it is the text
  or the array of texts that it puts into the prompt, and the language. A provider is
  any function from such a request to its answer: \<open>None\<close> when the call or
  \<^verbatim>\<open>JSON.parse\<close> throws (also when no API key is set), and otherwise \<open>Some\<close> of the value
  the code goes on with, \<^verbatim>\<open>JSON.parse(response.text)\<close> for an array of texts and
  \<^verbatim>\<open>response.text\<close> for a single text.
\<close>

datatype request = TranslateTexts "jsval list" jsstring | TranslateOne jsval jsstring

type_synonym provider = "request \<Rightarrow> jsval option"

text \<open>
  The two branches of \<^verbatim>\<open>translateText\<close> and the function itself, which takes the first
  for an array. Its \<^verbatim>\<open>catch\<close> turns every error into
  \<^verbatim>\<open>Error("Failed to translate text.")\<close>.
\<close>

definition translateText_array :: "provider \<Rightarrow> jsval list \<Rightarrow> jsstring \<Rightarrow> error + jsval list" where
  "translateText_array provider text language =
     (case provider (TranslateTexts text language) of
        None \<Rightarrow> Inl TranslationFailed
      | Some result \<Rightarrow>
          (case get_prop result (lit ''translations'') of
             Inl e \<Rightarrow> Inl TranslationFailed
           | Inr translations \<Rightarrow>
               if \<not> falsy translations \<and> isArray translations
                  \<and> length (elems translations) = length text
               then Inr (elems translations)
               else Inl TranslationFailed))"

definition translateText_single :: "provider \<Rightarrow> jsval \<Rightarrow> jsstring \<Rightarrow> error + jsval" where
  "translateText_single provider text language =
     (case provider (TranslateOne text language) of
        None \<Rightarrow> Inl TranslationFailed
      | Some translated \<Rightarrow> Inr translated)"

definition translateText :: "provider \<Rightarrow> jsval \<Rightarrow> jsstring \<Rightarrow> error + jsval" where
  "translateText provider text language =
     (if isArray text
      then (case translateText_array provider (elems text) language of
              Inl e \<Rightarrow> Inl e
            | Inr translations \<Rightarrow> Inr (JArr translations))
      else translateText_single provider text language)"

text \<open>\<^verbatim>\<open>[currentQuestion.questionText, ...currentQuestion.options]\<close>\<close>

definition textsToTranslate :: "Question \<Rightarrow> jsval list" where
  "textsToTranslate currentQuestion =
     questionText currentQuestion # map JStr (options currentQuestion)"

text \<open>
  \<^verbatim>\<open>handleTranslate\<close> up to its \<^verbatim>\<open>await\<close>, and from there on with the question it has
  read. The second component of the result says whether
  \<^verbatim>\<open>alert('Failed to translate the question.')\<close> was shown.
  \<^verbatim>\<open>const [translatedQuestion, ...translatedOptions] = translations\<close> gives
  \<^verbatim>\<open>undefined\<close> and an empty array for an empty array.
\<close>

definition handleTranslate_begin :: "session \<Rightarrow> session" where
  "handleTranslate_begin s =
     s\<lparr> isTranslating := True, showTranslateModal := False, translatedContent := None \<rparr>"

definition handleTranslate_end ::
  "provider \<Rightarrow> Question \<Rightarrow> jsstring \<Rightarrow> session \<Rightarrow> session \<times> bool" where
  "handleTranslate_end provider currentQuestion language s =
     (if questionType currentQuestion = multiple_choice then
        (case translateText_array provider (textsToTranslate currentQuestion) language of
           Inl e \<Rightarrow> (s\<lparr> isTranslating := False \<rparr>, True)
         | Inr translations \<Rightarrow>
             if length translations = length (textsToTranslate currentQuestion) then
               (case translations of
                  [] \<Rightarrow>
                    (s\<lparr> translatedContent := Some (TranslatedContent JUndefined (Some [])),
                        isTranslating := False \<rparr>, False)
                | translatedQuestion # translatedOptions \<Rightarrow>
                    (s\<lparr> translatedContent :=
                          Some (TranslatedContent translatedQuestion (Some translatedOptions)),
                        isTranslating := False \<rparr>, False))
             else (s\<lparr> isTranslating := False \<rparr>, True))
      else
        (case translateText provider (questionText currentQuestion) language of
           Inl e \<Rightarrow> (s\<lparr> isTranslating := False \<rparr>, True)
         | Inr translation \<Rightarrow>
             (s\<lparr> translatedContent := Some (TranslatedContent translation None),
                 isTranslating := False \<rparr>, False)))"


section \<open>Runs of a session\<close>

text \<open>
  The handlers and the timer belong to a render that succeeded. Rendering reads
  \<^verbatim>\<open>currentQuestion.questionText\<close> with
  \<^verbatim>\<open>currentQuestion = quiz.questions[currentQuestionIndex]\<close>, which throws a TypeError
  when there is no such question. (A render can fail for other reasons too, such as an
  object where a text is shown; the runs below are the runs of the component and more.)
\<close>

definition renders :: "Quiz \<Rightarrow> session \<Rightarrow> bool" where
  "renders quiz s \<longleftrightarrow>
     0 \<le> currentQuestionIndex s \<and> currentQuestionIndex s < int (length (questions quiz))"

text \<open>
  The events that write a cell of the session. \<open>TranslateEnd\<close> carries the provider,
  the question that \<^verbatim>\<open>handleTranslate\<close> read before its \<^verbatim>\<open>await\<close>, and the language.
\<close>

datatype event =
    Tick
  | TogglePause
  | Resume
  | AnswerChange jsstring
  | GoToNext
  | GoToPrev
  | SkipQuestion
  | ShowTranslateModal bool
  | TranslateBegin
  | TranslateEnd provider Question jsstring

fun handle :: "Quiz \<Rightarrow> event \<Rightarrow> session \<Rightarrow> session" where
  "handle quiz Tick s = tick s"
| "handle quiz TogglePause s = setIsPaused (\<not> isPaused s) s"
| "handle quiz Resume s = setIsPaused False s"
| "handle quiz (AnswerChange answer) s = handleAnswerChange answer s"
| "handle quiz GoToNext s = goToNext quiz s"
| "handle quiz GoToPrev s = goToPrev quiz s"
| "handle quiz SkipQuestion s = skipQuestion quiz s"
| "handle quiz (ShowTranslateModal b) s = s\<lparr> showTranslateModal := b \<rparr>"
| "handle quiz TranslateBegin s = handleTranslate_begin s"
| "handle quiz (TranslateEnd provider q language) s =
     fst (handleTranslate_end provider q language s)"

definition step :: "Quiz \<Rightarrow> event \<Rightarrow> session \<Rightarrow> error + session" where
  "step quiz ev s = (if renders quiz s then Inr (handle quiz ev s) else Inl TypeError)"

fun run :: "Quiz \<Rightarrow> event list \<Rightarrow> session \<Rightarrow> error + session" where
  "run quiz [] s = Inr s"
| "run quiz (ev # evs) s =
     (case step quiz ev s of Inl e \<Rightarrow> Inl e | Inr s' \<Rightarrow> run quiz evs s')"

section \<open>Properties of the validation block\<close>

subsection \<open>Strings, properties and assignments\<close>

lemma all_dropWhile_iff: "(\<forall>x \<in> set (dropWhile P xs). P x) \<longleftrightarrow> (\<forall>x \<in> set xs. P x)"
  by (induction xs) auto

lemma trim_empty_iff: "trim s = [] \<longleftrightarrow> (\<forall>c \<in> set s. is_js_whitespace c)"
  by (simp add: trim_def dropWhile_eq_Nil_conv all_dropWhile_iff)

lemma keys_distinct:
  "lit ''questionType'' \<noteq> lit ''options''"
  "lit ''correctAnswer'' \<noteq> lit ''options''"
  "lit ''questionText'' \<noteq> lit ''options''"
  "lit ''multiple_choice'' \<noteq> lit ''fill_in_the_blank''"
  by (simp_all add: lit_def)

lemma map_of_assign_other: "k' \<noteq> k \<Longrightarrow> map_of (assign kvs k v) k' = map_of kvs k'"
  by (induction kvs) auto

lemma map_of_assign_same: "map_of (assign kvs k v) k = Some v"
  by (induction kvs) auto


lemma assign_twice: "assign (assign kvs k v) k w = assign kvs k w"
  by (induction kvs) auto

lemma get_prop_set_prop_other:
  "k' \<noteq> k \<Longrightarrow> get_prop (set_prop q k v) k' = get_prop q k'"
  by (cases q) (simp_all add: map_of_assign_other)

lemma get_prop_set_prop_same: "get_prop (set_prop (JObj kvs) k v) k = Inr v"
  by (simp add: map_of_assign_same)


lemma set_prop_twice: "set_prop (set_prop q k v) k w = set_prop q k w"
  by (cases q) (simp_all add: assign_twice)

lemma get_prop_array_is_object:
  "get_prop q k = Inr (JArr xs) \<Longrightarrow> \<exists>kvs. q = JObj kvs"
  by (cases q) auto

lemma get_prop_string_is_object:
  "get_prop q k = Inr (JStr s) \<Longrightarrow> \<exists>kvs. q = JObj kvs"
  by (cases q) auto

subsection \<open>The checks on one question\<close>

lemma bad_option_iff: "bad_option x \<longleftrightarrow> \<not> (\<exists>s. x = JStr s \<and> trim s \<noteq> [])"
  by (cases x) auto

lemma array_includes_strings:
  assumes "\<forall>x \<in> set xs. \<not> bad_option x"
  shows "array_includes xs a \<longleftrightarrow> a \<in> set xs"
  unfolding array_includes_def list_ex_iff
proof
  assume "\<exists>y \<in> set xs. same_value_zero y a"
  then obtain y where y: "y \<in> set xs" "same_value_zero y a" by blast
  with assms obtain s where "y = JStr s" by (auto simp: bad_option_iff)
  with y show "a \<in> set xs" by (cases a) auto
next
  assume a: "a \<in> set xs"
  with assms obtain s where "a = JStr s" by (auto simp: bad_option_iff)
  with a show "\<exists>y \<in> set xs. same_value_zero y a" by (intro bexI[of _ a]) auto
qed

lemma check_question_multiple_choice:
  assumes "get_prop q (lit ''questionType'') = Inr (JStr (lit ''multiple_choice''))"
    and "get_prop q (lit ''options'') = Inr opts"
    and "get_prop q (lit ''correctAnswer'') = Inr ans"
  shows "check_question q =
     (if \<not> (\<exists>xs. opts = JArr xs \<and> length xs = 4 \<and> (\<forall>x \<in> set xs. \<exists>s. x = JStr s \<and> trim s \<noteq> []))
      then Inl InvalidOptions
      else if ans \<notin> set (elems opts) then Inl AnswerNotInOptions
      else Inr q)"
proof (cases "\<exists>xs. opts = JArr xs \<and> length xs = 4 \<and> (\<forall>x \<in> set xs. \<not> bad_option x)")
  case True
  then obtain xs where xs: "opts = JArr xs" "length xs = 4" "\<forall>x \<in> set xs. \<not> bad_option x"
    by blast
  then have "array_includes xs ans \<longleftrightarrow> ans \<in> set xs"
    by (simp add: array_includes_strings)
  with xs assms show ?thesis
    by (simp add: check_question_def list_ex_iff bad_option_iff)
next
  case False
  then have "falsy opts \<or> \<not> isArray opts \<or> length (elems opts) \<noteq> 4
      \<or> list_ex bad_option (elems opts)"
    by (cases opts) (auto simp: list_ex_iff)
  moreover from False
  have "\<not> (\<exists>xs. opts = JArr xs \<and> length xs = 4 \<and> (\<forall>x \<in> set xs. \<exists>s. x = JStr s \<and> trim s \<noteq> []))"
    by (simp add: bad_option_iff)
  ultimately show ?thesis using assms
    by (simp add: check_question_def)
qed

lemma check_question_fill_in_the_blank:
  "get_prop q (lit ''questionType'') = Inr (JStr (lit ''fill_in_the_blank'')) \<Longrightarrow>
   check_question q = Inr (set_prop q (lit ''options'') (JArr []))"
  using keys_distinct(4) by (auto simp: check_question_def)

lemma check_question_keeps:
  assumes "check_question q = Inr q'" and "k \<noteq> lit ''options''"
  shows "get_prop q' k = get_prop q k"
  using assms
  by (auto simp: check_question_def get_prop_set_prop_other split: sum.splits if_splits)

subsection \<open>The loop and the whole block\<close>

lemma check_questions_length:
  "check_questions qs = Inr qs' \<Longrightarrow> length qs' = length qs"
  by (induction qs arbitrary: qs') (auto split: sum.splits)

lemma check_questions_nth:
  "check_questions qs = Inr qs' \<Longrightarrow> i < length qs \<Longrightarrow> check_question (qs ! i) = Inr (qs' ! i)"
proof (induction qs arbitrary: qs' i)
  case Nil
  then show ?case by simp
next
  case (Cons q qs)
  then show ?case by (cases i) (auto split: sum.splits)
qed

lemma check_questions_first_failure:
  "check_questions pre = Inr pre' \<Longrightarrow> check_question q = Inl e \<Longrightarrow>
   check_questions (pre @ q # post) = Inl e"
  by (induction pre arbitrary: pre') (auto split: sum.splits)

lemma check_questions_any_failure:
  "q \<in> set qs \<Longrightarrow> check_question q = Inl e \<Longrightarrow> \<exists>e'. check_questions qs = Inl e'"
  by (induction qs) (auto split: sum.splits)

lemma validate_array:
  "get_prop quizData (lit ''questions'') = Inr (JArr qs) \<Longrightarrow>
   validate quizData =
     (case check_questions qs of
        Inl e \<Rightarrow> Inl e
      | Inr qs' \<Rightarrow> Inr (set_prop quizData (lit ''questions'') (JArr qs')))"
  by (simp add: validate_def)

lemma validate_accepted:
  assumes "validate quizData = Inr quiz"
  obtains kvs qs qs' where "quizData = JObj kvs"
    and "get_prop quizData (lit ''questions'') = Inr (JArr qs)"
    and "check_questions qs = Inr qs'"
    and "quiz = set_prop quizData (lit ''questions'') (JArr qs')"
    and "questions_of quiz = qs'"
proof -
  from assms obtain v where v: "get_prop quizData (lit ''questions'') = Inr v"
    by (auto simp: validate_def split: sum.splits)
  with assms have "isArray v"
    by (auto simp: validate_def split: if_splits)
  then obtain qs where qs: "v = JArr qs" by (cases v) auto
  with v obtain kvs where kvs: "quizData = JObj kvs"
    using get_prop_array_is_object by blast
  from assms v qs obtain qs' where qs': "check_questions qs = Inr qs'"
    and quiz: "quiz = set_prop quizData (lit ''questions'') (JArr qs')"
    by (auto simp: validate_array split: sum.splits)
  from quiz kvs have "questions_of quiz = qs'"
    by (simp add: questions_of_def map_of_assign_same)
  with kvs v qs qs' quiz show ?thesis using that by blast
qed



lemma check_question_outcome_cong:
  assumes "get_prop a (lit ''questionType'') = get_prop b (lit ''questionType'')"
    and "get_prop a (lit ''options'') = get_prop b (lit ''options'')"
    and "get_prop a (lit ''correctAnswer'') = get_prop b (lit ''correctAnswer'')"
  shows "map_sum id (\<lambda>_. ()) (check_question a) = map_sum id (\<lambda>_. ()) (check_question b)"
proof (cases "get_prop b (lit ''questionType'')")
  case (Inl e)
  with assms show ?thesis by (simp add: check_question_def)
next
  case t: (Inr t)
  show ?thesis
  proof (cases "get_prop b (lit ''options'')")
    case (Inl e)
    with t assms show ?thesis by (simp add: check_question_def)
  next
    case opts: (Inr opts)
    show ?thesis
    proof (cases "get_prop b (lit ''correctAnswer'')")
      case (Inl e)
      with t opts assms show ?thesis by (simp add: check_question_def)
    next
      case (Inr ans)
      with t opts assms show ?thesis by (simp add: check_question_def)
    qed
  qed
qed

lemma check_questions_outcome_cong:
  assumes "list_all2 (\<lambda>a b. map_sum id (\<lambda>_. ()) (check_question a)
                            = map_sum id (\<lambda>_. ()) (check_question b)) qs1 qs2"
  shows "map_sum id (\<lambda>_. ()) (check_questions qs1) = map_sum id (\<lambda>_. ()) (check_questions qs2)"
  using assms
proof (induction rule: list_all2_induct)
  case Nil
  then show ?case by simp
next
  case (Cons a as b bs)
  then show ?case
    by (cases "check_question a"; cases "check_question b";
        cases "check_questions as"; cases "check_questions bs") simp_all
qed

subsection \<open>Claims about the validator\<close>




text \<open>
  C2 fails on the code: a quiz is accepted whose first question has no
  \<^verbatim>\<open>questionText\<close> and whose second has one of three spaces.
\<close>

theorem blank_questionText_accepted:
  "validate (JObj [(lit ''topic'', JStr (lit ''Capitals'')),
      (lit ''questions'', JArr [
         JObj [(lit ''questionType'', JStr (lit ''fill_in_the_blank'')),
               (lit ''options'', JArr []),
               (lit ''correctAnswer'', JStr (lit ''Paris''))],
         JObj [(lit ''questionText'', JStr (lit ''   '')),
               (lit ''questionType'', JStr (lit ''fill_in_the_blank'')),
               (lit ''options'', JArr []),
               (lit ''correctAnswer'', JStr (lit ''Rome''))]])])
   = Inr (JObj [(lit ''topic'', JStr (lit ''Capitals'')),
      (lit ''questions'', JArr [
         JObj [(lit ''questionType'', JStr (lit ''fill_in_the_blank'')),
               (lit ''options'', JArr []),
               (lit ''correctAnswer'', JStr (lit ''Paris''))],
         JObj [(lit ''questionText'', JStr (lit ''   '')),
               (lit ''questionType'', JStr (lit ''fill_in_the_blank'')),
               (lit ''options'', JArr []),
               (lit ''correctAnswer'', JStr (lit ''Rome''))]])])
  \<and> trim (lit ''   '') = []"
  by (simp add: validate_def check_question_def lit_def trim_def is_js_whitespace_def)

text \<open>
  C2, as the code has it. The block never reads \<^verbatim>\<open>questionText\<close>: two candidates whose
  questions agree, one by one, in \<^verbatim>\<open>questionType\<close>, \<^verbatim>\<open>options\<close> and
  \<^verbatim>\<open>correctAnswer\<close> are rejected with the same error or both accepted, whatever their
  \<^verbatim>\<open>questionText\<close> is, and the questions of an accepted quiz keep the
  \<^verbatim>\<open>questionText\<close> they came with, be it missing or blank.
\<close>

theorem validate_ignores_questionText:
  assumes "get_prop c1 (lit ''questions'') = Inr (JArr qs1)"
    and "get_prop c2 (lit ''questions'') = Inr (JArr qs2)"
    and "list_all2 (\<lambda>a b.
           get_prop a (lit ''questionType'') = get_prop b (lit ''questionType'') \<and>
           get_prop a (lit ''options'') = get_prop b (lit ''options'') \<and>
           get_prop a (lit ''correctAnswer'') = get_prop b (lit ''correctAnswer'')) qs1 qs2"
  shows "(\<forall>e. validate c1 = Inl e \<longleftrightarrow> validate c2 = Inl e) \<and>
         (\<forall>quiz. validate c1 = Inr quiz \<longrightarrow>
            map (\<lambda>q. get_prop q (lit ''questionText'')) (questions_of quiz) =
            map (\<lambda>q. get_prop q (lit ''questionText'')) qs1)"
proof -
  from assms(3)
  have "list_all2 (\<lambda>a b. map_sum id (\<lambda>_. ()) (check_question a)
                        = map_sum id (\<lambda>_. ()) (check_question b)) qs1 qs2"
    by (rule list_all2_mono) (blast intro: check_question_outcome_cong)
  then have "map_sum id (\<lambda>_. ()) (check_questions qs1)
           = map_sum id (\<lambda>_. ()) (check_questions qs2)"
    by (rule check_questions_outcome_cong)
  then have "\<forall>e. validate c1 = Inl e \<longleftrightarrow> validate c2 = Inl e"
    by (cases "check_questions qs1"; cases "check_questions qs2")
       (simp_all add: validate_array[OF assms(1)] validate_array[OF assms(2)])
  moreover have "map (\<lambda>q. get_prop q (lit ''questionText'')) (questions_of quiz) =
            map (\<lambda>q. get_prop q (lit ''questionText'')) qs1" if "validate c1 = Inr quiz" for quiz
  proof -
    from that obtain qs qs' where "get_prop c1 (lit ''questions'') = Inr (JArr qs)"
      and "check_questions qs = Inr qs'" and "questions_of quiz = qs'"
      by (rule validate_accepted)
    with assms(1) have chk: "check_questions qs1 = Inr qs'" and q: "questions_of quiz = qs'"
      by simp_all
    have "get_prop (qs' ! i) (lit ''questionText'') = get_prop (qs1 ! i) (lit ''questionText'')"
      if "i < length qs1" for i
      using check_questions_nth[OF chk that] keys_distinct(3) by (rule check_question_keeps)
    with check_questions_length[OF chk] q show ?thesis
      by (simp add: list_eq_iff_nth_eq)
  qed
  ultimately show ?thesis by blast
qed

text \<open>With and without a \<^verbatim>\<open>questionText\<close>, three options are rejected alike.\<close>

theorem validate_ignores_questionText_witness:
  "get_prop (JObj [(lit ''questions'', JArr [
       JObj [(lit ''questionText'', JStr (lit ''Capital of France?'')),
             (lit ''questionType'', JStr (lit ''multiple_choice'')),
             (lit ''options'', JArr [JStr (lit ''Paris''), JStr (lit ''Rome''), JStr (lit ''Oslo'')]),
             (lit ''correctAnswer'', JStr (lit ''Paris''))]])]) (lit ''questions'')
   = Inr (JArr [
       JObj [(lit ''questionText'', JStr (lit ''Capital of France?'')),
             (lit ''questionType'', JStr (lit ''multiple_choice'')),
             (lit ''options'', JArr [JStr (lit ''Paris''), JStr (lit ''Rome''), JStr (lit ''Oslo'')]),
             (lit ''correctAnswer'', JStr (lit ''Paris''))]]) \<and>
   validate (JObj [(lit ''questions'', JArr [
       JObj [(lit ''questionText'', JStr (lit ''Capital of France?'')),
             (lit ''questionType'', JStr (lit ''multiple_choice'')),
             (lit ''options'', JArr [JStr (lit ''Paris''), JStr (lit ''Rome''), JStr (lit ''Oslo'')]),
             (lit ''correctAnswer'', JStr (lit ''Paris''))]])]) = Inl InvalidOptions \<and>
   validate (JObj [(lit ''questions'', JArr [
       JObj [(lit ''questionType'', JStr (lit ''multiple_choice'')),
             (lit ''options'', JArr [JStr (lit ''Paris''), JStr (lit ''Rome''), JStr (lit ''Oslo'')]),
             (lit ''correctAnswer'', JStr (lit ''Paris''))]])]) = Inl InvalidOptions"
  using validate_ignores_questionText
    [of "JObj [(lit ''questions'', JArr [
       JObj [(lit ''questionText'', JStr (lit ''Capital of France?'')),
             (lit ''questionType'', JStr (lit ''multiple_choice'')),
             (lit ''options'', JArr [JStr (lit ''Paris''), JStr (lit ''Rome''), JStr (lit ''Oslo'')]),
             (lit ''correctAnswer'', JStr (lit ''Paris''))]])]"
        "[JObj [(lit ''questionText'', JStr (lit ''Capital of France?'')),
             (lit ''questionType'', JStr (lit ''multiple_choice'')),
             (lit ''options'', JArr [JStr (lit ''Paris''), JStr (lit ''Rome''), JStr (lit ''Oslo'')]),
             (lit ''correctAnswer'', JStr (lit ''Paris''))]]"
        "JObj [(lit ''questions'', JArr [
       JObj [(lit ''questionType'', JStr (lit ''multiple_choice'')),
             (lit ''options'', JArr [JStr (lit ''Paris''), JStr (lit ''Rome''), JStr (lit ''Oslo'')]),
             (lit ''correctAnswer'', JStr (lit ''Paris''))]])]"
        "[JObj [(lit ''questionType'', JStr (lit ''multiple_choice'')),
             (lit ''options'', JArr [JStr (lit ''Paris''), JStr (lit ''Rome''), JStr (lit ''Oslo'')]),
             (lit ''correctAnswer'', JStr (lit ''Paris''))]]"]
  by (simp add: validate_def check_question_def lit_def)

text \<open>
  C4 fails on the code: the check compares no option with another, and a
  multiple-choice question that lists \<^verbatim>\<open>Paris\<close> twice is accepted.
\<close>

theorem duplicate_options_accepted:
  "validate (JObj [(lit ''topic'', JStr (lit ''Capitals'')),
      (lit ''questions'', JArr [
         JObj [(lit ''questionText'', JStr (lit ''Capital of France?'')),
               (lit ''questionType'', JStr (lit ''multiple_choice'')),
               (lit ''options'', JArr [JStr (lit ''Paris''), JStr (lit ''Paris''),
                                       JStr (lit ''Rome''), JStr (lit ''Oslo'')]),
               (lit ''correctAnswer'', JStr (lit ''Paris'')),
               (lit ''explanation'', JStr [])]])])
   = Inr (JObj [(lit ''topic'', JStr (lit ''Capitals'')),
      (lit ''questions'', JArr [
         JObj [(lit ''questionText'', JStr (lit ''Capital of France?'')),
               (lit ''questionType'', JStr (lit ''multiple_choice'')),
               (lit ''options'', JArr [JStr (lit ''Paris''), JStr (lit ''Paris''),
                                       JStr (lit ''Rome''), JStr (lit ''Oslo'')]),
               (lit ''correctAnswer'', JStr (lit ''Paris'')),
               (lit ''explanation'', JStr [])]])])"
  by (simp add: validate_def check_question_def lit_def trim_def is_js_whitespace_def
        array_includes_def)

text \<open>
  C5. For a question whose \<^verbatim>\<open>questionType\<close> is \<^verbatim>\<open>multiple_choice\<close>: unless
  \<^verbatim>\<open>options\<close> is an array of exactly four strings, none empty after trimming, the
  check throws the invalid-options error; otherwise, unless \<^verbatim>\<open>correctAnswer\<close> is equal
  to one of the options, it throws the answer-not-in-options error; otherwise the
  question passes unchanged. An error of the question is the error of the validation
  when the questions before it pass, and makes the validation fail in any case.
\<close>

theorem multiple_choice_validation:
  assumes "get_prop q (lit ''questionType'') = Inr (JStr (lit ''multiple_choice''))"
    and "get_prop q (lit ''options'') = Inr opts"
    and "get_prop q (lit ''correctAnswer'') = Inr ans"
  shows "(if \<not> (\<exists>xs. opts = JArr xs \<and> length xs = 4 \<and>
                    (\<forall>x \<in> set xs. \<exists>s. x = JStr s \<and> trim s \<noteq> []))
          then check_question q = Inl InvalidOptions
          else if ans \<notin> set (elems opts) then check_question q = Inl AnswerNotInOptions
          else check_question q = Inr q) \<and>
         (\<forall>e quizData pre pre' post.
            check_question q = Inl e \<and>
            get_prop quizData (lit ''questions'') = Inr (JArr (pre @ q # post)) \<and>
            check_questions pre = Inr pre' \<longrightarrow> validate quizData = Inl e) \<and>
         (\<forall>e quizData qs.
            check_question q = Inl e \<and>
            get_prop quizData (lit ''questions'') = Inr (JArr qs) \<and> q \<in> set qs \<longrightarrow>
            (\<exists>e'. validate quizData = Inl e'))"
proof (intro conjI allI impI)
  show "if \<not> (\<exists>xs. opts = JArr xs \<and> length xs = 4 \<and>
                    (\<forall>x \<in> set xs. \<exists>s. x = JStr s \<and> trim s \<noteq> []))
          then check_question q = Inl InvalidOptions
          else if ans \<notin> set (elems opts) then check_question q = Inl AnswerNotInOptions
          else check_question q = Inr q"
    by (simp only: check_question_multiple_choice[OF assms] split: if_split) simp
next
  fix e quizData pre pre' post
  assume "check_question q = Inl e \<and>
            get_prop quizData (lit ''questions'') = Inr (JArr (pre @ q # post)) \<and>
            check_questions pre = Inr pre'"
  then show "validate quizData = Inl e"
    by (simp add: validate_array check_questions_first_failure)
next
  fix e quizData qs
  assume "check_question q = Inl e \<and>
            get_prop quizData (lit ''questions'') = Inr (JArr qs) \<and> q \<in> set qs"
  then show "\<exists>e'. validate quizData = Inl e'"
    using check_questions_any_failure[of q qs e] by (auto simp: validate_array)
qed

text \<open>\<^verbatim>\<open>paris\<close> is not \<^verbatim>\<open>Paris\<close>.\<close>

theorem multiple_choice_validation_witness:
  "get_prop (JObj [(lit ''questionType'', JStr (lit ''multiple_choice'')),
             (lit ''options'', JArr [JStr (lit ''Paris''), JStr (lit ''Rome''),
                                     JStr (lit ''Oslo''), JStr (lit ''Bern'')]),
             (lit ''correctAnswer'', JStr (lit ''paris''))]) (lit ''questionType'')
     = Inr (JStr (lit ''multiple_choice'')) \<and>
   check_question (JObj [(lit ''questionType'', JStr (lit ''multiple_choice'')),
             (lit ''options'', JArr [JStr (lit ''Paris''), JStr (lit ''Rome''),
                                     JStr (lit ''Oslo''), JStr (lit ''Bern'')]),
             (lit ''correctAnswer'', JStr (lit ''paris''))]) = Inl AnswerNotInOptions \<and>
   validate (JObj [(lit ''questions'', JArr [
       JObj [(lit ''questionType'', JStr (lit ''multiple_choice'')),
             (lit ''options'', JArr [JStr (lit ''Paris''), JStr (lit ''Rome''),
                                     JStr (lit ''Oslo''), JStr (lit ''Bern'')]),
             (lit ''correctAnswer'', JStr (lit ''paris''))]])]) = Inl AnswerNotInOptions"
  using multiple_choice_validation
    [of "JObj [(lit ''questionType'', JStr (lit ''multiple_choice'')),
             (lit ''options'', JArr [JStr (lit ''Paris''), JStr (lit ''Rome''),
                                     JStr (lit ''Oslo''), JStr (lit ''Bern'')]),
             (lit ''correctAnswer'', JStr (lit ''paris''))]"
        "JArr [JStr (lit ''Paris''), JStr (lit ''Rome''), JStr (lit ''Oslo''), JStr (lit ''Bern'')]"
        "JStr (lit ''paris'')"]
  by (simp add: validate_def check_question_def lit_def trim_def is_js_whitespace_def
        array_includes_def)

text \<open>
  C6. In a quiz that the validator accepted, every question whose \<^verbatim>\<open>questionType\<close> is
  \<^verbatim>\<open>fill_in_the_blank\<close> has the empty array as its \<^verbatim>\<open>options\<close>. Such a question
  is never rejected: its check returns it with \<^verbatim>\<open>options\<close> emptied, and the outcome
  of the check, and of the validation of a quiz around it, is the same for every value
  of \<^verbatim>\<open>options\<close> the candidate supplies.
\<close>

theorem fill_in_the_blank_options_forced_empty:
  "(validate quizData = Inr quiz \<longrightarrow>
      (\<forall>q \<in> set (questions_of quiz).
         get_prop q (lit ''questionType'') = Inr (JStr (lit ''fill_in_the_blank'')) \<longrightarrow>
         get_prop q (lit ''options'') = Inr (JArr []))) \<and>
   (get_prop q (lit ''questionType'') = Inr (JStr (lit ''fill_in_the_blank'')) \<longrightarrow>
      check_question q = Inr (set_prop q (lit ''options'') (JArr [])) \<and>
      check_question (set_prop q (lit ''options'') supplied) = check_question q \<and>
      validate (set_prop (JObj kvs) (lit ''questions'')
                 (JArr (pre @ set_prop q (lit ''options'') supplied # post))) =
      validate (set_prop (JObj kvs) (lit ''questions'') (JArr (pre @ q # post))))"
proof (intro conjI impI ballI)
  fix q'
  assume acc: "validate quizData = Inr quiz" and mem: "q' \<in> set (questions_of quiz)"
    and fib: "get_prop q' (lit ''questionType'') = Inr (JStr (lit ''fill_in_the_blank''))"
  from acc obtain qs qs' where chk: "check_questions qs = Inr qs'" and q: "questions_of quiz = qs'"
    by (rule validate_accepted)
  from mem q obtain i where i: "i < length qs'" "q' = qs' ! i"
    by (auto simp: in_set_conv_nth)
  with check_questions_length[OF chk] have step: "check_question (qs ! i) = Inr q'"
    using check_questions_nth[OF chk] by simp
  from check_question_keeps[OF step keys_distinct(1)] fib
  have src: "get_prop (qs ! i) (lit ''questionType'') = Inr (JStr (lit ''fill_in_the_blank''))"
    by simp
  then obtain kvs' where obj: "qs ! i = JObj kvs'"
    using get_prop_string_is_object by blast
  from check_question_fill_in_the_blank[OF src] step
  have "q' = set_prop (qs ! i) (lit ''options'') (JArr [])" by simp
  with obj show "get_prop q' (lit ''options'') = Inr (JArr [])"
    by (simp add: map_of_assign_same)
next
  assume fib: "get_prop q (lit ''questionType'') = Inr (JStr (lit ''fill_in_the_blank''))"
  show one: "check_question q = Inr (set_prop q (lit ''options'') (JArr []))"
    using fib by (rule check_question_fill_in_the_blank)
  from fib
  have "get_prop (set_prop q (lit ''options'') supplied) (lit ''questionType'') =
        Inr (JStr (lit ''fill_in_the_blank''))"
    by (simp add: get_prop_set_prop_other keys_distinct(1))
  then show same: "check_question (set_prop q (lit ''options'') supplied) = check_question q"
    by (simp add: check_question_fill_in_the_blank one set_prop_twice)
  have "check_questions (pre @ set_prop q (lit ''options'') supplied # post) =
        check_questions (pre @ q # post)"
    by (induction pre) (simp_all only: append_Nil append_Cons check_questions.simps same)
  then show "validate (set_prop (JObj kvs) (lit ''questions'')
                 (JArr (pre @ set_prop q (lit ''options'') supplied # post))) =
      validate (set_prop (JObj kvs) (lit ''questions'') (JArr (pre @ q # post)))"
    by (simp add: validate_array map_of_assign_same assign_twice split: sum.splits)
qed

text \<open>Two supplied options are dropped, and the quiz is accepted.\<close>

theorem fill_in_the_blank_options_forced_empty_witness:
  "validate (JObj [(lit ''questions'', JArr [
       JObj [(lit ''questionType'', JStr (lit ''fill_in_the_blank'')),
             (lit ''options'', JArr [JStr (lit ''Paris''), JStr (lit ''Rome'')]),
             (lit ''correctAnswer'', JStr (lit ''Paris''))]])])
   = Inr (JObj [(lit ''questions'', JArr [
       JObj [(lit ''questionType'', JStr (lit ''fill_in_the_blank'')),
             (lit ''options'', JArr []),
             (lit ''correctAnswer'', JStr (lit ''Paris''))]])]) \<and>
   get_prop (JObj [(lit ''questionType'', JStr (lit ''fill_in_the_blank'')),
             (lit ''options'', JArr []),
             (lit ''correctAnswer'', JStr (lit ''Paris''))]) (lit ''options'') = Inr (JArr [])"
  using fill_in_the_blank_options_forced_empty
    [of "JObj [(lit ''questions'', JArr [
       JObj [(lit ''questionType'', JStr (lit ''fill_in_the_blank'')),
             (lit ''options'', JArr [JStr (lit ''Paris''), JStr (lit ''Rome'')]),
             (lit ''correctAnswer'', JStr (lit ''Paris''))]])]"
        "JObj [(lit ''questions'', JArr [
       JObj [(lit ''questionType'', JStr (lit ''fill_in_the_blank'')),
             (lit ''options'', JArr []),
             (lit ''correctAnswer'', JStr (lit ''Paris''))]])]"
        "JObj [(lit ''questionType'', JStr (lit ''fill_in_the_blank'')),
             (lit ''options'', JArr []),
             (lit ''correctAnswer'', JStr (lit ''Paris''))]"
        "JArr [JStr (lit ''Paris''), JStr (lit ''Rome'')]" "[]" "[]" "[]"]
  by (simp add: validate_def check_question_def questions_of_def lit_def)

section \<open>Properties of the numbers\<close>

subsection \<open>Rounding\<close>


lemma bits_lower: "0 < n \<Longrightarrow> 2 ^ (bits n - 1) \<le> n"
proof (induction n rule: bits.induct)
  case (1 n)
  show ?case
  proof (cases "n div 2 = 0")
    case True
    with 1 show ?thesis by (simp add: bits.simps[of n] bits.simps[of 0])
  next
    case False
    with 1 have ih: "2 ^ (bits (n div 2) - 1) \<le> n div 2" by simp
    from False have "0 < bits (n div 2)" by (simp add: bits.simps[of "n div 2"])
    then have "(2::nat) ^ bits (n div 2) = 2 * 2 ^ (bits (n div 2) - 1)"
      by (cases "bits (n div 2)") simp_all
    with ih have "2 ^ bits (n div 2) \<le> n" by linarith
    with 1 show ?thesis by (simp add: bits.simps[of n])
  qed
qed

lemma bits_le: "n < 2 ^ k \<Longrightarrow> bits n \<le> k"
proof (cases "n = 0")
  case True
  then show ?thesis by (simp add: bits.simps)
next
  case False
  assume "n < 2 ^ k"
  moreover from False have "2 ^ (bits n - 1) \<le> n" by (intro bits_lower) simp
  ultimately have "(2::nat) ^ (bits n - 1) < 2 ^ k" by (rule le_less_trans[rotated])
  then have "bits n - 1 < k" by (simp only: power_strict_increasing_iff[of 2] one_less_numeral_iff semiring_norm)
  then show ?thesis by simp
qed


lemma bits_double: "0 < n \<Longrightarrow> bits (2 * n) = Suc (bits n)"
  by (simp add: bits.simps[of "2 * n"])

lemma bits_shift: "0 < m \<Longrightarrow> bits (m * 2 ^ e) = bits m + e"
proof (induction e)
  case 0
  then show ?case by simp
next
  case (Suc e)
  then have "bits (2 * (m * 2 ^ e)) = Suc (bits (m * 2 ^ e))"
    by (intro bits_double) simp
  with Suc show ?case by (simp add: mult.left_commute)
qed

lemma round_nat_dvd: "2 ^ (bits a - 53) dvd a \<Longrightarrow> round_nat a = a"
  by (auto simp: round_nat_def Let_def mod_eq_0_iff_dvd)


lemma round_nat_mantissa: "m \<le> 2 ^ 53 \<Longrightarrow> round_nat (m * 2 ^ e) = m * 2 ^ e"
proof (rule round_nat_dvd, cases "m = 0 \<or> m = 2 ^ 53")
  case True
  then show "2 ^ (bits (m * 2 ^ e) - 53) dvd m * 2 ^ e"
  proof
    assume "m = 0" then show ?thesis by simp
  next
    assume m: "m = 2 ^ 53"
    have "bits (m * 2 ^ e) \<le> 53 + e + 1"
      by (rule bits_le) (simp add: m power_add)
    then have "(2::nat) ^ (bits (m * 2 ^ e) - 53) dvd 2 ^ (53 + e)"
      by (intro le_imp_power_dvd) simp
    then show ?thesis by (simp add: m power_add)
  qed
next
  case False
  assume "m \<le> 2 ^ 53"
  with False have "0 < m" "m < 2 ^ 53" by simp_all
  then have "bits (m * 2 ^ e) \<le> 53 + e"
    by (simp add: bits_shift bits_le)
  then have "(2::nat) ^ (bits (m * 2 ^ e) - 53) dvd 2 ^ e"
    by (intro le_imp_power_dvd) simp
  then show "2 ^ (bits (m * 2 ^ e) - 53) dvd m * 2 ^ e"
    by (rule dvd_mult)
qed

lemma round_nat_exact: "a \<le> 2 ^ 53 \<Longrightarrow> round_nat a = a"
  using round_nat_mantissa[of a 0] by simp





subsection \<open>Doubles\<close>

lemma round_double_small: "\<bar>x\<bar> \<le> 2 ^ 53 \<Longrightarrow> round_double x = Finite x"
proof -
  assume a: "\<bar>x\<bar> \<le> 2 ^ 53"
  then have "nat \<bar>x\<bar> \<le> 2 ^ 53" by (simp add: nat_le_iff)
  then have r: "round_nat (nat \<bar>x\<bar>) = nat \<bar>x\<bar>" by (rule round_nat_exact)
  have "(2::nat) ^ 53 < 2 ^ 1024" by simp
  with \<open>nat \<bar>x\<bar> \<le> 2 ^ 53\<close> have "\<not> 2 ^ 1024 \<le> nat \<bar>x\<bar>" by linarith
  with r show ?thesis by (auto simp: round_double_def Let_def)
qed






lemma minus_exact: "\<bar>x - y\<bar> \<le> 2 ^ 53 \<Longrightarrow> js_minus (Finite x) (Finite y) = Finite (x - y)"
  by (simp add: round_double_small)

section \<open>Properties of the quiz session\<close>

subsection \<open>Scoring\<close>

lemma score_reduce_zip:
  "Hole \<notin> set xs \<Longrightarrow> index + length xs \<le> length qs \<Longrightarrow>
   score_reduce qs xs index acc =
     Inr (acc + int (length (filter
            (\<lambda>(a, q). case a of Hole \<Rightarrow> False | Elem b \<Rightarrow> strict_equals b (correctAnswer q))
            (zip xs (drop index qs)))))"
proof (induction xs arbitrary: index acc)
  case Nil
  then show ?case by simp
next
  case (Cons x xs)
  then obtain a where x: "x = Elem a" by (cases x) auto
  from Cons.prems have lt: "index < length qs" by simp
  then have split: "drop index qs = qs ! index # drop (Suc index) qs"
    by (simp add: Cons_nth_drop_Suc)
  from Cons.prems have "Hole \<notin> set xs" "Suc index + length xs \<le> length qs" by simp_all
  then have "score_reduce qs xs (Suc index) acc' =
     Inr (acc' + int (length (filter
            (\<lambda>(a, q). case a of Hole \<Rightarrow> False | Elem b \<Rightarrow> strict_equals b (correctAnswer q))
            (zip xs (drop (Suc index) qs)))))" for acc'
    by (rule Cons.IH)
  with x lt split show ?case by simp
qed

lemma zip_as_indices:
  "length xs = length ys \<Longrightarrow> zip xs ys = map (\<lambda>i. (xs ! i, ys ! i)) [0..<length xs]"
  by (rule nth_equalityI) simp_all

lemma count_pairs_as_indices:
  assumes "length xs = length ys"
  shows "length (filter P (zip xs ys)) =
         length (filter (\<lambda>i. P (xs ! i, ys ! i)) [0..<length ys])"
proof -
  have "filter P (zip xs ys) =
        map (\<lambda>i. (xs ! i, ys ! i)) (filter (\<lambda>i. P (xs ! i, ys ! i)) [0..<length xs])"
    by (simp add: zip_as_indices[OF assms] filter_map comp_def)
  then show ?thesis using assms by simp
qed

lemma handleSubmit_score:
  assumes "length (userAnswers s) = length (questions quiz)" and "Hole \<notin> set (userAnswers s)"
  shows "handleSubmit quiz settings s =
     Inr \<lparr> result_id = [], result_quiz = quiz, result_settings = settings,
           result_userAnswers = userAnswers s,
           score = int (length (filter
                     (\<lambda>i. case userAnswers s ! i of
                             Hole \<Rightarrow> False
                           | Elem a \<Rightarrow> strict_equals a (correctAnswer (questions quiz ! i)))
                     [0..<length (questions quiz)])),
           timeTaken = js_minus (times60 (duration settings)) (timeLeft s),
           folderId = lit ''uncategorized'', tags = [] \<rparr>"
  using assms score_reduce_zip[of "userAnswers s" 0 "questions quiz" 0]
  by (simp add: handleSubmit_def count_pairs_as_indices)

subsection \<open>What a run keeps\<close>

lemma handleTranslate_end_cells:
  "currentQuestionIndex (fst (handleTranslate_end p q l s)) = currentQuestionIndex s"
  "userAnswers (fst (handleTranslate_end p q l s)) = userAnswers s"
  "timeLeft (fst (handleTranslate_end p q l s)) = timeLeft s"
  "isPaused (fst (handleTranslate_end p q l s)) = isPaused s"
  by (simp_all add: handleTranslate_end_def split: sum.splits list.splits)

lemma array_assign_inside:
  "0 \<le> i \<Longrightarrow> i < int (length xs) \<Longrightarrow> array_assign xs i v = xs[nat i := Elem v]"
  by (simp add: array_assign_def nat_less_iff)

lemma handle_userAnswers:
  assumes "renders quiz s" and "length (userAnswers s) = length (questions quiz)"
    and "Hole \<notin> set (userAnswers s)"
  shows "length (userAnswers (handle quiz ev s)) = length (questions quiz) \<and>
         Hole \<notin> set (userAnswers (handle quiz ev s))"
proof (cases ev)
  case (AnswerChange answer)
  from assms(1,2) have "userAnswers (handle quiz ev s) =
      (userAnswers s)[nat (currentQuestionIndex s) := Elem (Some answer)]"
    by (simp add: AnswerChange handleAnswerChange_def renders_def array_assign_inside)
  with assms(2,3) show ?thesis
    by (auto dest: set_update_subset_insert[THEN subsetD])
qed (use assms in \<open>simp_all add: tick_def setIsPaused_def goToNext_def goToPrev_def
      skipQuestion_def changeQuestion_def handleTranslate_begin_def handleTranslate_end_cells\<close>)

lemma run_userAnswers:
  assumes "run quiz evs s = Inr s'"
    and "length (userAnswers s) = length (questions quiz)" and "Hole \<notin> set (userAnswers s)"
  shows "length (userAnswers s') = length (questions quiz) \<and> Hole \<notin> set (userAnswers s')"
  using assms
proof (induction evs arbitrary: s)
  case Nil
  then show ?case by simp
next
  case (Cons ev evs)
  from Cons.prems(1) have r: "renders quiz s" and rest: "run quiz evs (handle quiz ev s) = Inr s'"
    by (auto simp: step_def split: if_splits)
  from handle_userAnswers[OF r Cons.prems(2,3)] show ?case
    by (intro Cons.IH[OF rest]) simp_all
qed

lemma session_userAnswers:
  assumes "run quiz evs (init quiz settings) = Inr s"
  shows "length (userAnswers s) = length (questions quiz)" and "Hole \<notin> set (userAnswers s)"
  using run_userAnswers[OF assms] by (simp_all add: init_def)









subsection \<open>Seconds\<close>

lemma tick_paused: "isPaused s \<Longrightarrow> tick s = s"
  by (simp add: tick_def timer_effect_def)

lemma ticks_paused: "isPaused s \<Longrightarrow> (tick ^^ n) s = s"
  by (induction n) (simp_all add: tick_paused)

lemma ticks_running:
  assumes "\<not> isPaused s" and "timeLeft s = Finite x" and "int n \<le> x" and "x \<le> 2 ^ 53"
  shows "(tick ^^ n) s = s\<lparr> timeLeft := Finite (x - int n) \<rparr>"
  using assms(3)
proof (induction n)
  case 0
  with assms(2) show ?case by simp
next
  case (Suc n)
  then have before: "(tick ^^ n) s = s\<lparr> timeLeft := Finite (x - int n) \<rparr>" by simp
  from Suc.prems assms(4) have "\<bar>x - int n - 1\<bar> \<le> 2 ^ 53" by simp
  then have "js_minus (Finite (x - int n)) (Finite 1) = Finite (x - int n - 1)"
    by (rule minus_exact)
  with Suc.prems assms(1)
  have "tick (s\<lparr> timeLeft := Finite (x - int n) \<rparr>) = s\<lparr> timeLeft := Finite (x - int (Suc n)) \<rparr>"
    by (simp add: tick_def timer_effect_def algebra_simps)
  with before show ?case by simp
qed

lemma renders_ticks: "renders quiz ((tick ^^ n) s) = renders quiz s"
  by (induction n) (simp_all add: renders_def tick_def)

lemma run_ticks: "renders quiz s \<Longrightarrow> run quiz (replicate n Tick) s = Inr ((tick ^^ n) s)"
proof (induction n arbitrary: s)
  case 0
  then show ?case by simp
next
  case (Suc n)
  from Suc.prems have "renders quiz (tick s)"
    using renders_ticks[of quiz 1 s] by simp
  then have "run quiz (replicate n Tick) (tick s) = Inr ((tick ^^ n) (tick s))"
    by (rule Suc.IH)
  with Suc.prems show ?case
    by (simp add: step_def funpow_swap1)
qed

subsection \<open>Claims about the session\<close>

text \<open>
  C3 fails on the code: on a session of a two-question quiz, a first call of submit
  stores one result and a second call on the same session stores another one.
\<close>

theorem second_submit_stores_second_result:
  "submit \<lparr> topic = JStr (lit ''Photosynthesis''),
        questions =
          [\<lparr> questionText = JStr (lit ''Plants absorb ___.''), questionType = fill_in_the_blank,
              options = [], correctAnswer = JStr (lit ''light''), explanation = JStr [] \<rparr>,
           \<lparr> questionText = JStr (lit ''Plants release ___.''), questionType = fill_in_the_blank,
              options = [], correctAnswer = JStr (lit ''oxygen''), explanation = JStr [] \<rparr>] \<rparr>
     \<lparr> settings_topic = lit ''Photosynthesis'', documentContent = None,
        numQuestions = Finite 2, settings_questionType = FillInTheBlank, difficulty = Easy,
        duration = Finite 1, settings_language = [] \<rparr>
     1000
     \<lparr> currentQuestionIndex = 0, userAnswers = [Elem None, Elem None], timeLeft = Finite 60,
        isPaused = False, isTranslating = False, showTranslateModal = False,
        translatedContent = None \<rparr>
     []
   = Inr [\<lparr> result_id = lit ''1000'', result_quiz = \<lparr> topic = JStr (lit ''Photosynthesis''),
        questions =
          [\<lparr> questionText = JStr (lit ''Plants absorb ___.''), questionType = fill_in_the_blank,
              options = [], correctAnswer = JStr (lit ''light''), explanation = JStr [] \<rparr>,
           \<lparr> questionText = JStr (lit ''Plants release ___.''), questionType = fill_in_the_blank,
              options = [], correctAnswer = JStr (lit ''oxygen''), explanation = JStr [] \<rparr>] \<rparr>,
        result_settings = \<lparr> settings_topic = lit ''Photosynthesis'', documentContent = None,
        numQuestions = Finite 2, settings_questionType = FillInTheBlank, difficulty = Easy,
        duration = Finite 1, settings_language = [] \<rparr>,
        result_userAnswers = [Elem None, Elem None], score = 0, timeTaken = Finite 0,
        folderId = lit ''uncategorized'', tags = [] \<rparr>] \<and>
   submit \<lparr> topic = JStr (lit ''Photosynthesis''),
        questions =
          [\<lparr> questionText = JStr (lit ''Plants absorb ___.''), questionType = fill_in_the_blank,
              options = [], correctAnswer = JStr (lit ''light''), explanation = JStr [] \<rparr>,
           \<lparr> questionText = JStr (lit ''Plants release ___.''), questionType = fill_in_the_blank,
              options = [], correctAnswer = JStr (lit ''oxygen''), explanation = JStr [] \<rparr>] \<rparr>
     \<lparr> settings_topic = lit ''Photosynthesis'', documentContent = None,
        numQuestions = Finite 2, settings_questionType = FillInTheBlank, difficulty = Easy,
        duration = Finite 1, settings_language = [] \<rparr>
     1001
     \<lparr> currentQuestionIndex = 0, userAnswers = [Elem None, Elem None], timeLeft = Finite 60,
        isPaused = False, isTranslating = False, showTranslateModal = False,
        translatedContent = None \<rparr>
     [\<lparr> result_id = lit ''1000'', result_quiz = \<lparr> topic = JStr (lit ''Photosynthesis''),
        questions =
          [\<lparr> questionText = JStr (lit ''Plants absorb ___.''), questionType = fill_in_the_blank,
              options = [], correctAnswer = JStr (lit ''light''), explanation = JStr [] \<rparr>,
           \<lparr> questionText = JStr (lit ''Plants release ___.''), questionType = fill_in_the_blank,
              options = [], correctAnswer = JStr (lit ''oxygen''), explanation = JStr [] \<rparr>] \<rparr>,
        result_settings = \<lparr> settings_topic = lit ''Photosynthesis'', documentContent = None,
        numQuestions = Finite 2, settings_questionType = FillInTheBlank, difficulty = Easy,
        duration = Finite 1, settings_language = [] \<rparr>,
        result_userAnswers = [Elem None, Elem None], score = 0, timeTaken = Finite 0,
        folderId = lit ''uncategorized'', tags = [] \<rparr>]
   = Inr [\<lparr> result_id = lit ''1001'', result_quiz = \<lparr> topic = JStr (lit ''Photosynthesis''),
        questions =
          [\<lparr> questionText = JStr (lit ''Plants absorb ___.''), questionType = fill_in_the_blank,
              options = [], correctAnswer = JStr (lit ''light''), explanation = JStr [] \<rparr>,
           \<lparr> questionText = JStr (lit ''Plants release ___.''), questionType = fill_in_the_blank,
              options = [], correctAnswer = JStr (lit ''oxygen''), explanation = JStr [] \<rparr>] \<rparr>,
        result_settings = \<lparr> settings_topic = lit ''Photosynthesis'', documentContent = None,
        numQuestions = Finite 2, settings_questionType = FillInTheBlank, difficulty = Easy,
        duration = Finite 1, settings_language = [] \<rparr>,
        result_userAnswers = [Elem None, Elem None], score = 0, timeTaken = Finite 0,
        folderId = lit ''uncategorized'', tags = [] \<rparr>,
          \<lparr> result_id = lit ''1000'', result_quiz = \<lparr> topic = JStr (lit ''Photosynthesis''),
        questions =
          [\<lparr> questionText = JStr (lit ''Plants absorb ___.''), questionType = fill_in_the_blank,
              options = [], correctAnswer = JStr (lit ''light''), explanation = JStr [] \<rparr>,
           \<lparr> questionText = JStr (lit ''Plants release ___.''), questionType = fill_in_the_blank,
              options = [], correctAnswer = JStr (lit ''oxygen''), explanation = JStr [] \<rparr>] \<rparr>,
        result_settings = \<lparr> settings_topic = lit ''Photosynthesis'', documentContent = None,
        numQuestions = Finite 2, settings_questionType = FillInTheBlank, difficulty = Easy,
        duration = Finite 1, settings_language = [] \<rparr>,
        result_userAnswers = [Elem None, Elem None], score = 0, timeTaken = Finite 0,
        folderId = lit ''uncategorized'', tags = [] \<rparr>]"
  by (simp add: submit_def handleSubmit_def handleQuizComplete_def toString.simps lit_def
        round_double_def round_nat_def bits.simps Let_def)

text \<open>
  C3, as the code has it. \<^verbatim>\<open>handleSubmit\<close> keeps no record of an earlier submission:
  every call that computes a result hands it to \<^verbatim>\<open>handleQuizComplete\<close>, which puts it,
  under the id of the clock reading, in front of the stored results. A second call on
  the same session stores a second result, equal to the first in everything but the id.
\<close>

theorem submit_twice_stores_two:
  assumes "handleSubmit quiz settings s = Inr r"
  shows "submit quiz settings t1 s quizResults = Inr (r\<lparr> result_id := toString t1 \<rparr> # quizResults) \<and>
         submit quiz settings t2 s (r\<lparr> result_id := toString t1 \<rparr> # quizResults) =
           Inr (r\<lparr> result_id := toString t2 \<rparr> # r\<lparr> result_id := toString t1 \<rparr> # quizResults)"
proof -
  from assms have "folderId r = lit ''uncategorized''" and "tags r = []"
    by (auto simp: handleSubmit_def split: sum.splits)
  then have "r\<lparr> result_id := x, folderId := lit ''uncategorized'', tags := [] \<rparr>
           = r\<lparr> result_id := x \<rparr>" for x
    by simp
  with assms show ?thesis
    by (simp add: submit_def handleQuizComplete_def)
qed

text \<open>Two calls, at clock readings 7 and 8, on a session with one right answer.\<close>

theorem submit_twice_stores_two_witness:
  "handleSubmit \<lparr> topic = JStr (lit ''Photosynthesis''),
        questions =
          [\<lparr> questionText = JStr (lit ''Plants absorb ___.''), questionType = fill_in_the_blank,
              options = [], correctAnswer = JStr (lit ''light''), explanation = JStr [] \<rparr>,
           \<lparr> questionText = JStr (lit ''Plants release ___.''), questionType = fill_in_the_blank,
              options = [], correctAnswer = JStr (lit ''oxygen''), explanation = JStr [] \<rparr>] \<rparr>
     \<lparr> settings_topic = lit ''Photosynthesis'', documentContent = None,
        numQuestions = Finite 2, settings_questionType = FillInTheBlank, difficulty = Easy,
        duration = Finite 1, settings_language = [] \<rparr>
     \<lparr> currentQuestionIndex = 1, userAnswers = [Elem (Some (lit ''light'')), Elem (Some (lit ''water''))], timeLeft = Finite 58,
        isPaused = False, isTranslating = False, showTranslateModal = False,
        translatedContent = None \<rparr>
   = Inr \<lparr> result_id = [], result_quiz = \<lparr> topic = JStr (lit ''Photosynthesis''),
        questions =
          [\<lparr> questionText = JStr (lit ''Plants absorb ___.''), questionType = fill_in_the_blank,
              options = [], correctAnswer = JStr (lit ''light''), explanation = JStr [] \<rparr>,
           \<lparr> questionText = JStr (lit ''Plants release ___.''), questionType = fill_in_the_blank,
              options = [], correctAnswer = JStr (lit ''oxygen''), explanation = JStr [] \<rparr>] \<rparr>,
        result_settings = \<lparr> settings_topic = lit ''Photosynthesis'', documentContent = None,
        numQuestions = Finite 2, settings_questionType = FillInTheBlank, difficulty = Easy,
        duration = Finite 1, settings_language = [] \<rparr>,
        result_userAnswers = [Elem (Some (lit ''light'')), Elem (Some (lit ''water''))], score = 1, timeTaken = Finite 2,
        folderId = lit ''uncategorized'', tags = [] \<rparr> \<and>
   map_sum id (map result_id)
     (submit \<lparr> topic = JStr (lit ''Photosynthesis''),
        questions =
          [\<lparr> questionText = JStr (lit ''Plants absorb ___.''), questionType = fill_in_the_blank,
              options = [], correctAnswer = JStr (lit ''light''), explanation = JStr [] \<rparr>,
           \<lparr> questionText = JStr (lit ''Plants release ___.''), questionType = fill_in_the_blank,
              options = [], correctAnswer = JStr (lit ''oxygen''), explanation = JStr [] \<rparr>] \<rparr>
        \<lparr> settings_topic = lit ''Photosynthesis'', documentContent = None,
        numQuestions = Finite 2, settings_questionType = FillInTheBlank, difficulty = Easy,
        duration = Finite 1, settings_language = [] \<rparr>
        7
        \<lparr> currentQuestionIndex = 1, userAnswers = [Elem (Some (lit ''light'')), Elem (Some (lit ''water''))], timeLeft = Finite 58,
        isPaused = False, isTranslating = False, showTranslateModal = False,
        translatedContent = None \<rparr>
        []) = Inr [lit ''7''] \<and>
   map_sum id (map result_id)
     (submit \<lparr> topic = JStr (lit ''Photosynthesis''),
        questions =
          [\<lparr> questionText = JStr (lit ''Plants absorb ___.''), questionType = fill_in_the_blank,
              options = [], correctAnswer = JStr (lit ''light''), explanation = JStr [] \<rparr>,
           \<lparr> questionText = JStr (lit ''Plants release ___.''), questionType = fill_in_the_blank,
              options = [], correctAnswer = JStr (lit ''oxygen''), explanation = JStr [] \<rparr>] \<rparr>
        \<lparr> settings_topic = lit ''Photosynthesis'', documentContent = None,
        numQuestions = Finite 2, settings_questionType = FillInTheBlank, difficulty = Easy,
        duration = Finite 1, settings_language = [] \<rparr>
        8
        \<lparr> currentQuestionIndex = 1, userAnswers = [Elem (Some (lit ''light'')), Elem (Some (lit ''water''))], timeLeft = Finite 58,
        isPaused = False, isTranslating = False, showTranslateModal = False,
        translatedContent = None \<rparr>
        [\<lparr> result_id = lit ''7'', result_quiz = \<lparr> topic = JStr (lit ''Photosynthesis''),
        questions =
          [\<lparr> questionText = JStr (lit ''Plants absorb ___.''), questionType = fill_in_the_blank,
              options = [], correctAnswer = JStr (lit ''light''), explanation = JStr [] \<rparr>,
           \<lparr> questionText = JStr (lit ''Plants release ___.''), questionType = fill_in_the_blank,
              options = [], correctAnswer = JStr (lit ''oxygen''), explanation = JStr [] \<rparr>] \<rparr>,
        result_settings = \<lparr> settings_topic = lit ''Photosynthesis'', documentContent = None,
        numQuestions = Finite 2, settings_questionType = FillInTheBlank, difficulty = Easy,
        duration = Finite 1, settings_language = [] \<rparr>,
        result_userAnswers = [Elem (Some (lit ''light'')), Elem (Some (lit ''water''))], score = 1, timeTaken = Finite 2,
        folderId = lit ''uncategorized'', tags = [] \<rparr>]) = Inr [lit ''8'', lit ''7'']"
  using submit_twice_stores_two
    [of "\<lparr> topic = JStr (lit ''Photosynthesis''),
        questions =
          [\<lparr> questionText = JStr (lit ''Plants absorb ___.''), questionType = fill_in_the_blank,
              options = [], correctAnswer = JStr (lit ''light''), explanation = JStr [] \<rparr>,
           \<lparr> questionText = JStr (lit ''Plants release ___.''), questionType = fill_in_the_blank,
              options = [], correctAnswer = JStr (lit ''oxygen''), explanation = JStr [] \<rparr>] \<rparr>"
        "\<lparr> settings_topic = lit ''Photosynthesis'', documentContent = None,
        numQuestions = Finite 2, settings_questionType = FillInTheBlank, difficulty = Easy,
        duration = Finite 1, settings_language = [] \<rparr>"
        "\<lparr> currentQuestionIndex = 1, userAnswers = [Elem (Some (lit ''light'')), Elem (Some (lit ''water''))], timeLeft = Finite 58,
        isPaused = False, isTranslating = False, showTranslateModal = False,
        translatedContent = None \<rparr>"
        "\<lparr> result_id = [], result_quiz = \<lparr> topic = JStr (lit ''Photosynthesis''),
        questions =
          [\<lparr> questionText = JStr (lit ''Plants absorb ___.''), questionType = fill_in_the_blank,
              options = [], correctAnswer = JStr (lit ''light''), explanation = JStr [] \<rparr>,
           \<lparr> questionText = JStr (lit ''Plants release ___.''), questionType = fill_in_the_blank,
              options = [], correctAnswer = JStr (lit ''oxygen''), explanation = JStr [] \<rparr>] \<rparr>,
        result_settings = \<lparr> settings_topic = lit ''Photosynthesis'', documentContent = None,
        numQuestions = Finite 2, settings_questionType = FillInTheBlank, difficulty = Easy,
        duration = Finite 1, settings_language = [] \<rparr>,
        result_userAnswers = [Elem (Some (lit ''light'')), Elem (Some (lit ''water''))], score = 1, timeTaken = Finite 2,
        folderId = lit ''uncategorized'', tags = [] \<rparr>" 7 "[]" 8]
  by (simp add: handleSubmit_def toString.simps lit_def round_double_def round_nat_def
        bits.simps Let_def)




text \<open>
  C8 fails on the code: with a duration of \<open>2 ^ 53\<close> minutes the session starts at
  \<open>60 * 2 ^ 53\<close> seconds, where neighbouring doubles are 64 apart, and ten seconds
  after a pause and a resume \<^verbatim>\<open>timeLeft\<close> is what it was.
\<close>

theorem ticks_leave_large_timeLeft:
  "run \<lparr> topic = JStr (lit ''Capitals''),
         questions = [\<lparr> questionText = JStr (lit ''Capital of France?''),
                        questionType = fill_in_the_blank, options = [],
                        correctAnswer = JStr (lit ''Paris''), explanation = JStr [] \<rparr>] \<rparr>
     [TogglePause]
     (init \<lparr> topic = JStr (lit ''Capitals''),
         questions = [\<lparr> questionText = JStr (lit ''Capital of France?''),
                        questionType = fill_in_the_blank, options = [],
                        correctAnswer = JStr (lit ''Paris''), explanation = JStr [] \<rparr>] \<rparr>
        \<lparr> settings_topic = lit ''Photosynthesis'', documentContent = None,
        numQuestions = Finite 2, settings_questionType = FillInTheBlank, difficulty = Easy,
        duration = Finite 9007199254740992, settings_language = [] \<rparr>)
   = Inr \<lparr> currentQuestionIndex = 0, userAnswers = [Elem None], timeLeft = Finite 540431955284459520,
       isPaused = True, isTranslating = False, showTranslateModal = False,
       translatedContent = None \<rparr> \<and>
   run \<lparr> topic = JStr (lit ''Capitals''),
         questions = [\<lparr> questionText = JStr (lit ''Capital of France?''),
                        questionType = fill_in_the_blank, options = [],
                        correctAnswer = JStr (lit ''Paris''), explanation = JStr [] \<rparr>] \<rparr>
     [Resume, Tick, Tick, Tick, Tick, Tick, Tick, Tick, Tick, Tick, Tick]
     \<lparr> currentQuestionIndex = 0, userAnswers = [Elem None], timeLeft = Finite 540431955284459520,
       isPaused = True, isTranslating = False, showTranslateModal = False,
       translatedContent = None \<rparr>
   = Inr \<lparr> currentQuestionIndex = 0, userAnswers = [Elem None], timeLeft = Finite 540431955284459520,
       isPaused = False, isTranslating = False, showTranslateModal = False,
       translatedContent = None \<rparr>"
  by (simp add: init_def step_def renders_def tick_def timer_effect_def setIsPaused_def
        round_double_def round_nat_def bits.simps Let_def)

text \<open>
  C8, as the code has it. While \<^verbatim>\<open>isPaused\<close> holds, any number of seconds leaves the
  whole session as it is. Resuming, by either button, keeps \<^verbatim>\<open>timeLeft\<close>; from then on
  a second takes exactly 1 from a \<^verbatim>\<open>timeLeft\<close> that is positive and at most \<open>2 ^ 53\<close>,
  so \<open>n\<close> seconds take \<open>n\<close> from a \<^verbatim>\<open>timeLeft\<close> between \<open>n\<close> and \<open>2 ^ 53\<close>, and
  change nothing else.
\<close>

theorem pause_freezes_countdown:
  "(isPaused s \<longrightarrow> (tick ^^ n) s = s) \<and>
   (isPaused s \<and> renders quiz s \<longrightarrow> run quiz (replicate n Tick) s = Inr s) \<and>
   (isPaused s \<longrightarrow> handle quiz Resume s = setIsPaused False s
                  \<and> handle quiz TogglePause s = setIsPaused False s) \<and>
   timeLeft (setIsPaused False s) = timeLeft s \<and>
   (timeLeft s = Finite x \<and> 0 < x \<and> x \<le> 2 ^ 53 \<longrightarrow>
      tick (setIsPaused False s) = s\<lparr> isPaused := False, timeLeft := Finite (x - 1) \<rparr>) \<and>
   (timeLeft s = Finite x \<and> int n \<le> x \<and> x \<le> 2 ^ 53 \<longrightarrow>
      (tick ^^ n) (setIsPaused False s)
        = s\<lparr> isPaused := False, timeLeft := Finite (x - int n) \<rparr>) \<and>
   (timeLeft s = Finite x \<and> int n \<le> x \<and> x \<le> 2 ^ 53 \<and> renders quiz s \<longrightarrow>
      run quiz (Resume # replicate n Tick) s
        = Inr (s\<lparr> isPaused := False, timeLeft := Finite (x - int n) \<rparr>))"
proof (intro conjI impI)
  show "(tick ^^ n) s = s" if "isPaused s"
    using that by (rule ticks_paused)
  show "run quiz (replicate n Tick) s = Inr s" if "isPaused s \<and> renders quiz s"
    using that by (simp add: run_ticks ticks_paused)
  show "handle quiz Resume s = setIsPaused False s"
    by simp
  show "handle quiz TogglePause s = setIsPaused False s" if "isPaused s"
    using that by simp
  show "timeLeft (setIsPaused False s) = timeLeft s"
    by (simp add: setIsPaused_def)
  have ticks: "(tick ^^ k) (setIsPaused False s)
        = s\<lparr> isPaused := False, timeLeft := Finite (x - int k) \<rparr>"
    if "timeLeft s = Finite x \<and> int k \<le> x \<and> x \<le> 2 ^ 53" for k
    using that ticks_running[of "setIsPaused False s" x k] by (simp add: setIsPaused_def)
  show "tick (setIsPaused False s) = s\<lparr> isPaused := False, timeLeft := Finite (x - 1) \<rparr>"
    if "timeLeft s = Finite x \<and> 0 < x \<and> x \<le> 2 ^ 53"
    using that ticks[of 1] by simp
  show "(tick ^^ n) (setIsPaused False s)
        = s\<lparr> isPaused := False, timeLeft := Finite (x - int n) \<rparr>"
    if "timeLeft s = Finite x \<and> int n \<le> x \<and> x \<le> 2 ^ 53"
    using that by (rule ticks)
  show "run quiz (Resume # replicate n Tick) s
        = Inr (s\<lparr> isPaused := False, timeLeft := Finite (x - int n) \<rparr>)"
    if "timeLeft s = Finite x \<and> int n \<le> x \<and> x \<le> 2 ^ 53 \<and> renders quiz s"
  proof -
    from that have "renders quiz (setIsPaused False s)"
      by (simp add: renders_def setIsPaused_def)
    then have "run quiz (replicate n Tick) (setIsPaused False s)
        = Inr ((tick ^^ n) (setIsPaused False s))"
      by (rule run_ticks)
    with that ticks[of n] show ?thesis
      by (simp add: step_def)
  qed
qed

text \<open>Ten seconds paused at 42, then ten seconds running.\<close>

theorem pause_freezes_countdown_witness:
  "run \<lparr> topic = JStr (lit ''Capitals''),
         questions = [\<lparr> questionText = JStr (lit ''Capital of France?''),
                        questionType = fill_in_the_blank, options = [],
                        correctAnswer = JStr (lit ''Paris''), explanation = JStr [] \<rparr>] \<rparr>
     (replicate 10 Tick)
     \<lparr> currentQuestionIndex = 0, userAnswers = [Elem None], timeLeft = Finite 42,
       isPaused = True, isTranslating = False, showTranslateModal = False,
       translatedContent = None \<rparr>
    = Inr \<lparr> currentQuestionIndex = 0, userAnswers = [Elem None], timeLeft = Finite 42,
       isPaused = True, isTranslating = False, showTranslateModal = False,
       translatedContent = None \<rparr> \<and>
   run \<lparr> topic = JStr (lit ''Capitals''),
         questions = [\<lparr> questionText = JStr (lit ''Capital of France?''),
                        questionType = fill_in_the_blank, options = [],
                        correctAnswer = JStr (lit ''Paris''), explanation = JStr [] \<rparr>] \<rparr>
     (Resume # replicate 10 Tick)
     \<lparr> currentQuestionIndex = 0, userAnswers = [Elem None], timeLeft = Finite 42,
       isPaused = True, isTranslating = False, showTranslateModal = False,
       translatedContent = None \<rparr>
    = Inr \<lparr> currentQuestionIndex = 0, userAnswers = [Elem None], timeLeft = Finite 32,
       isPaused = False, isTranslating = False, showTranslateModal = False,
       translatedContent = None \<rparr>"
  using pause_freezes_countdown
    [of "\<lparr> currentQuestionIndex = 0, userAnswers = [Elem None], timeLeft = Finite 42,
       isPaused = True, isTranslating = False, showTranslateModal = False,
       translatedContent = None \<rparr>" 10
       "\<lparr> topic = JStr (lit ''Capitals''),
         questions = [\<lparr> questionText = JStr (lit ''Capital of France?''),
                        questionType = fill_in_the_blank, options = [],
                        correctAnswer = JStr (lit ''Paris''), explanation = JStr [] \<rparr>] \<rparr>" 42]
  by (simp add: renders_def)



text \<open>
  C10. In every state that a session reaches, \<^verbatim>\<open>userAnswers\<close> is as long as
  \<^verbatim>\<open>quiz.questions\<close>, and \<^verbatim>\<open>handleSubmit\<close> returns a result whose score is at least 0
  and at most the number of questions.
\<close>

theorem score_within_bounds:
  assumes "run quiz evs (init quiz settings) = Inr s"
  shows "length (userAnswers s) = length (questions quiz) \<and>
     (\<exists>r. handleSubmit quiz settings s = Inr r \<and>
          0 \<le> score r \<and> score r \<le> int (length (questions quiz)))"
proof -
  note keeps = session_userAnswers[OF assms]
  have "length (filter (\<lambda>i. case userAnswers s ! i of
                             Hole \<Rightarrow> False
                           | Elem a \<Rightarrow> strict_equals a (correctAnswer (questions quiz ! i)))
          [0..<length (questions quiz)]) \<le> length [0..<length (questions quiz)]"
    by (rule length_filter_le)
  then show ?thesis
    using keeps(1) by (simp add: handleSubmit_score[OF keeps])
qed

text \<open>Both questions answered right, with a pause in between.\<close>

theorem score_within_bounds_witness:
  "run \<lparr> topic = JStr (lit ''Photosynthesis''),
        questions =
          [\<lparr> questionText = JStr (lit ''Plants absorb ___.''), questionType = fill_in_the_blank,
              options = [], correctAnswer = JStr (lit ''light''), explanation = JStr [] \<rparr>,
           \<lparr> questionText = JStr (lit ''Plants release ___.''), questionType = fill_in_the_blank,
              options = [], correctAnswer = JStr (lit ''oxygen''), explanation = JStr [] \<rparr>] \<rparr>
     [GoToNext, AnswerChange (lit ''oxygen''), GoToPrev, TogglePause, Tick, Resume, AnswerChange (lit ''light'')]
     (init \<lparr> topic = JStr (lit ''Photosynthesis''),
        questions =
          [\<lparr> questionText = JStr (lit ''Plants absorb ___.''), questionType = fill_in_the_blank,
              options = [], correctAnswer = JStr (lit ''light''), explanation = JStr [] \<rparr>,
           \<lparr> questionText = JStr (lit ''Plants release ___.''), questionType = fill_in_the_blank,
              options = [], correctAnswer = JStr (lit ''oxygen''), explanation = JStr [] \<rparr>] \<rparr>
        \<lparr> settings_topic = lit ''Photosynthesis'', documentContent = None,
        numQuestions = Finite 2, settings_questionType = FillInTheBlank, difficulty = Easy,
        duration = Finite 1, settings_language = [] \<rparr>)
   = Inr \<lparr> currentQuestionIndex = 0, userAnswers = [Elem (Some (lit ''light'')), Elem (Some (lit ''oxygen''))], timeLeft = Finite 60,
        isPaused = False, isTranslating = False, showTranslateModal = False,
        translatedContent = None \<rparr> \<and>
   map_sum id score (handleSubmit \<lparr> topic = JStr (lit ''Photosynthesis''),
        questions =
          [\<lparr> questionText = JStr (lit ''Plants absorb ___.''), questionType = fill_in_the_blank,
              options = [], correctAnswer = JStr (lit ''light''), explanation = JStr [] \<rparr>,
           \<lparr> questionText = JStr (lit ''Plants release ___.''), questionType = fill_in_the_blank,
              options = [], correctAnswer = JStr (lit ''oxygen''), explanation = JStr [] \<rparr>] \<rparr>
     \<lparr> settings_topic = lit ''Photosynthesis'', documentContent = None,
        numQuestions = Finite 2, settings_questionType = FillInTheBlank, difficulty = Easy,
        duration = Finite 1, settings_language = [] \<rparr>
     \<lparr> currentQuestionIndex = 0, userAnswers = [Elem (Some (lit ''light'')), Elem (Some (lit ''oxygen''))], timeLeft = Finite 60,
        isPaused = False, isTranslating = False, showTranslateModal = False,
        translatedContent = None \<rparr>) = Inr 2"
  using score_within_bounds
    [of "\<lparr> topic = JStr (lit ''Photosynthesis''),
        questions =
          [\<lparr> questionText = JStr (lit ''Plants absorb ___.''), questionType = fill_in_the_blank,
              options = [], correctAnswer = JStr (lit ''light''), explanation = JStr [] \<rparr>,
           \<lparr> questionText = JStr (lit ''Plants release ___.''), questionType = fill_in_the_blank,
              options = [], correctAnswer = JStr (lit ''oxygen''), explanation = JStr [] \<rparr>] \<rparr>"
        "[GoToNext, AnswerChange (lit ''oxygen''), GoToPrev, TogglePause, Tick, Resume, AnswerChange (lit ''light'')]"
        "\<lparr> settings_topic = lit ''Photosynthesis'', documentContent = None,
        numQuestions = Finite 2, settings_questionType = FillInTheBlank, difficulty = Easy,
        duration = Finite 1, settings_language = [] \<rparr>"
        "\<lparr> currentQuestionIndex = 0, userAnswers = [Elem (Some (lit ''light'')), Elem (Some (lit ''oxygen''))], timeLeft = Finite 60,
        isPaused = False, isTranslating = False, showTranslateModal = False,
        translatedContent = None \<rparr>"]
  by (simp add: init_def step_def renders_def tick_def timer_effect_def handleAnswerChange_def array_assign_def goToNext_def goToPrev_def changeQuestion_def setIsPaused_def handleSubmit_def lit_def round_double_def round_nat_def bits.simps Let_def)

end
